theory Spec2Isabelle
  imports Complex_Main
begin

section \<open>Python values used by app\_advanced.py\<close>

text \<open>
  A Python \<open>str\<close> is a sequence of Unicode code points, and \<open>len\<close> counts code points.
  A string is therefore a list of code point numbers; \<open>ascii\<close> embeds an ASCII literal.
\<close>

type_synonym pystr = "nat list"

definition ascii :: "string \<Rightarrow> pystr" where
  "ascii s = map of_char s"

text \<open>
  Exceptions are values. Each constructor carries the text that \<open>str(e)\<close> yields, because
  the source formats \<open>{e}\<close> into its error reports.
\<close>

datatype py_error = ZeroDivisionError pystr | OverflowError pystr | BackendError pystr

fun error_text :: "py_error \<Rightarrow> pystr" where
  "error_text (ZeroDivisionError msg) = msg"
| "error_text (OverflowError msg) = msg"
| "error_text (BackendError msg) = msg"

text \<open>\<open>text.split('\n')\<close>: the pieces between line feeds (code point 10); never empty.\<close>

fun str_split_newline :: "pystr \<Rightarrow> pystr list" where
  "str_split_newline [] = [[]]"
| "str_split_newline (c # cs) =
     (if c = 10 then [] # str_split_newline cs
      else (case str_split_newline cs of
              [] \<Rightarrow> [[c]]
            | l # ls \<Rightarrow> (c # l) # ls))"

text \<open>\<open>sep.join(parts)\<close>.\<close>

fun str_join :: "pystr \<Rightarrow> pystr list \<Rightarrow> pystr" where
  "str_join sep [] = []"
| "str_join sep [x] = x"
| "str_join sep (x # y # ys) = x @ sep @ str_join sep (y # ys)"

text \<open>
  Slicing \<open>s[:k]\<close> and \<open>s[k:]\<close>: a negative bound counts from the end, and every bound is
  clamped to the range of the string, so slicing never raises.
\<close>

definition slice_index :: "nat \<Rightarrow> int \<Rightarrow> nat" where
  "slice_index n k = (if k < 0 then nat (max (int n + k) 0) else min (nat k) n)"

definition str_prefix :: "pystr \<Rightarrow> int \<Rightarrow> pystr" where
  "str_prefix s k = take (slice_index (length s) k) s"

definition str_suffix :: "pystr \<Rightarrow> int \<Rightarrow> pystr" where
  "str_suffix s k = drop (slice_index (length s) k) s"

subsection \<open>Float arithmetic\<close>

text \<open>
  Python floats are IEEE 754 binary64 values and every operation rounds to nearest, ties to
  even. A finite float is modelled by the rational it denotes. A positive rational \<open>x\<close>
  lies in the binade \<open>2 ^ e \<le> x < 2 ^ (e + 1)\<close>, \<open>e = binade x\<close>; its neighbours among the
  floats are the multiples of \<open>2 ^ (e - 52)\<close>, and below \<open>2 ^ (- 1022)\<close> (the subnormal
  range) the multiples of \<open>2 ^ (- 1074)\<close>. A rounded value of magnitude \<open>2 ^ 1024\<close> or more
  stands for an overflow.
\<close>

function bit_length :: "int \<Rightarrow> nat" where
  "bit_length k = (if k \<le> 0 then 0 else Suc (bit_length (k div 2)))"
  by pat_completeness auto
termination
  by (relation "measure nat") auto

declare bit_length.simps [simp del]

definition round_half_even :: "rat \<Rightarrow> int" where
  "round_half_even q =
     (let f = \<lfloor>q\<rfloor>; r = q - of_int f
      in if r < 1 / 2 then f else if 1 / 2 < r then f + 1 else if even f then f else f + 1)"

definition binade :: "rat \<Rightarrow> int" where
  "binade x = (if 1 \<le> x then int (bit_length \<lfloor>x\<rfloor>) - 1
               else - int (bit_length (\<lceil>1 / x\<rceil> - 1)))"

definition pow2 :: "int \<Rightarrow> rat" where
  "pow2 p = (if 0 \<le> p then 2 ^ nat p else 1 / 2 ^ nat (- p))"

definition round_double_pos :: "rat \<Rightarrow> rat" where
  "round_double_pos x =
     (if x = 0 then 0
      else let ulp = pow2 (max (binade x) (- 1022) - 52)
           in of_int (round_half_even (x / ulp)) * ulp)"

definition round_double :: "rat \<Rightarrow> rat" where
  "round_double x = (if x < 0 then - round_double_pos (- x) else round_double_pos x)"

definition float_overflow :: "rat \<Rightarrow> bool" where
  "float_overflow r = (pow2 1024 \<le> \<bar>r\<bar>)"

text \<open>\<open>a / b\<close> on two ints: true division, correctly rounded.\<close>

definition true_div :: "int \<Rightarrow> int \<Rightarrow> py_error + rat" where
  "true_div a b =
     (if b = 0 then Inl (ZeroDivisionError (ascii ''division by zero''))
      else let r = round_double (of_int a / of_int b)
           in if float_overflow r
              then Inl (OverflowError (ascii ''integer division result too large for a float''))
              else Inr r)"

text \<open>The conversion of an int operand to float, as \<open>int * float\<close> performs it.\<close>

definition int_to_float :: "int \<Rightarrow> py_error + rat" where
  "int_to_float n =
     (let r = round_double (of_int n)
      in if float_overflow r then Inl (OverflowError (ascii ''int too large to convert to float''))
         else Inr r)"

text \<open>\<open>int(x)\<close> on a float truncates towards zero.\<close>

definition truncate :: "rat \<Rightarrow> int" where
  "truncate x = (if x < 0 then \<lceil>x\<rceil> else \<lfloor>x\<rfloor>)"

section \<open>The chunker\<close>

text \<open>
  \<open>get_token_count(text, model)\<close> calls the tiktoken library, which is not part of the
  repository: the token counter is a parameter, a pure function to a count.
\<close>

type_synonym token_counter = "pystr \<Rightarrow> pystr \<Rightarrow> nat"

text \<open>
  \<open>int(len(sentence) * (max_tokens / get_token_count(sentence, model)))\<close>, given the length
  and the count. The division is evaluated first; the product of two floats that overflows
  is infinite, and \<open>int\<close> of an infinity raises.
\<close>

definition cut_off_point :: "nat \<Rightarrow> int \<Rightarrow> nat \<Rightarrow> py_error + int" where
  "cut_off_point len max_tokens tokens =
     (case true_div max_tokens (int tokens) of
        Inl e \<Rightarrow> Inl e
      | Inr ratio \<Rightarrow>
          (case int_to_float (int len) of
             Inl e \<Rightarrow> Inl e
           | Inr l \<Rightarrow>
               (let p = round_double (l * ratio)
                in if float_overflow p
                   then Inl (OverflowError (ascii ''cannot convert float infinity to integer''))
                   else Inr (truncate p))))"

text \<open>
  The \<open>while\<close> loop of \<open>split_text_into_chunks\<close> (lines 54 to 57). It may run forever:
  the value \<open>None\<close> stands for a loop that does not return.
\<close>

partial_function (option) force_split ::
  "token_counter \<Rightarrow> pystr \<Rightarrow> int \<Rightarrow> pystr list \<Rightarrow> pystr \<Rightarrow> (py_error + pystr list \<times> pystr) option"
where
  "force_split get_token_count model max_tokens chunks sentence =
     (if max_tokens < int (get_token_count sentence model) then
        (case cut_off_point (length sentence) max_tokens (get_token_count sentence model) of
           Inl e \<Rightarrow> Some (Inl e)
         | Inr c \<Rightarrow>
             force_split get_token_count model max_tokens
               (chunks @ [str_prefix sentence c]) (str_suffix sentence c))
      else Some (Inr (chunks, sentence)))"

text \<open>The \<open>for\<close> loop over the lines (lines 48 to 58), from the state \<open>(chunks, current_chunk)\<close>.\<close>

fun accumulate ::
  "token_counter \<Rightarrow> pystr \<Rightarrow> int \<Rightarrow> pystr list \<Rightarrow> pystr list \<Rightarrow> pystr
     \<Rightarrow> (py_error + pystr list \<times> pystr) option"
where
  "accumulate get_token_count model max_tokens [] chunks current_chunk =
     Some (Inr (chunks, current_chunk))"
| "accumulate get_token_count model max_tokens (sentence # sentences) chunks current_chunk =
     (if int (get_token_count (current_chunk @ sentence @ [10]) model) \<le> max_tokens then
        accumulate get_token_count model max_tokens sentences chunks
          (current_chunk @ sentence @ [10])
      else
        (case force_split get_token_count model max_tokens
                (if current_chunk \<noteq> [] then chunks @ [current_chunk] else chunks) sentence of
           None \<Rightarrow> None
         | Some (Inl e) \<Rightarrow> Some (Inl e)
         | Some (Inr (chunks', sentence')) \<Rightarrow>
             accumulate get_token_count model max_tokens sentences chunks' (sentence' @ [10])))"

definition split_text_into_chunks ::
  "token_counter \<Rightarrow> pystr \<Rightarrow> pystr \<Rightarrow> int \<Rightarrow> (py_error + pystr list) option"
where
  "split_text_into_chunks get_token_count text model max_tokens =
     (case accumulate get_token_count model max_tokens (str_split_newline text) [] [] of
        None \<Rightarrow> None
      | Some (Inl e) \<Rightarrow> Some (Inl e)
      | Some (Inr (chunks, current_chunk)) \<Rightarrow>
          Some (Inr (if current_chunk \<noteq> [] then chunks @ [current_chunk] else chunks)))"

section \<open>The fixed texts of the application\<close>

text \<open>
  The string literals of the source, code point by code point (most are Japanese). A
  placeholder of an f-string is an argument; an integer placeholder is printed in decimal.
\<close>

fun str_of_nat :: "nat \<Rightarrow> pystr" where
  "str_of_nat n = (if n < 10 then [48 + n] else str_of_nat (n div 10) @ [48 + n mod 10])"

declare str_of_nat.simps [simp del]

text \<open>Line 70, the text of the fresh progress bar.\<close>

definition progress_start_text :: "pystr" where
  "progress_start_text =
     [32763, 35379, 12398, 28310, 20633, 12434, 12375, 12390, 12356, 12414, 12377, 46, 46,
     46]"

text \<open>Line 74, \<open>progress_text\<close>.\<close>

definition progress_page_text :: "nat \<Rightarrow> nat \<Rightarrow> pystr" where
  "progress_page_text page_num page_count =
     [128196, 32, 12506, 12540, 12472, 32] @ str_of_nat page_num @ [47]
     @ str_of_nat page_count @ [32, 12398, 32763, 35379, 20013, 46, 46, 46]"

text \<open>Line 79, the placeholder that stands for an empty page.\<close>

definition empty_page_text :: "nat \<Rightarrow> pystr" where
  "empty_page_text page_num =
     [45, 45, 45, 32, 12506, 12540, 12472, 32] @ str_of_nat page_num @ [32, 40, 20869, 23481,
     12399, 31354, 12391, 12375, 12383, 41, 32, 45, 45, 45]"

text \<open>Line 91, the system message of a translation request.\<close>

definition translate_system_prompt :: "pystr \<Rightarrow> pystr" where
  "translate_system_prompt target_language =
     [12354, 12394, 12383, 12399, 12503, 12525, 12398, 32763, 35379, 23478, 12391, 12377,
     12290, 20197, 19979, 12398, 12486, 12461, 12473, 12488, 12434, 12289, 24847, 21619,
     12434, 27491, 30906, 12395, 20445, 12385, 12394, 12364, 12425, 33258, 28982, 12394]
     @ target_language @ [12395, 32763, 35379, 12375, 12390, 12367, 12384, 12373, 12356,
     12290, 12501, 12457, 12540, 12510, 12483, 12488, 12420, 25913, 34892, 12399, 21487,
     33021, 12394, 38480, 12426, 32173, 25345, 12375, 12390, 12367, 12384, 12373, 12356,
     12290]"

text \<open>Line 98, the report of a failed translation call.\<close>

definition translate_error_text :: "nat \<Rightarrow> py_error \<Rightarrow> pystr" where
  "translate_error_text page_num e =
     [12506, 12540, 12472, 32] @ str_of_nat page_num @ [32, 12398, 32763, 35379, 20013,
     12395, 12456, 12521, 12540, 12364, 30330, 29983, 12375, 12414, 12375, 12383, 58, 32]
     @ error_text e"

text \<open>Line 99, the sentinel that replaces a part whose translation failed.\<close>

definition failed_part_text :: "pystr" where
  "failed_part_text =
     [45, 45, 45, 32, 12456, 12521, 12540, 65306, 12371, 12398, 37096, 20998, 12398, 32763,
     35379, 12395, 22833, 25943, 12375, 12414, 12375, 12383, 32, 45, 45, 45]"

text \<open>Line 105.\<close>

definition progress_done_text :: "pystr" where
  "progress_done_text =
     [32763, 35379, 23436, 20102, 65281]"

text \<open>Line 109, one page section: the delimiter with the page number, then the content.\<close>

definition page_section :: "nat \<Rightarrow> pystr \<Rightarrow> pystr" where
  "page_section page_num content =
     [45, 45, 45, 32, 12506, 12540, 12472, 32] @ str_of_nat page_num @ [32, 45, 45, 45, 10,
     10] @ content"

text \<open>Line 109, the separator of the page sections.\<close>

definition page_separator :: "pystr" where
  "page_separator =
     [10, 10, 10]"

text \<open>Line 118.\<close>

definition summarize_info_text :: "nat \<Rightarrow> pystr" where
  "summarize_info_text parts =
     [12486, 12461, 12473, 12488, 12364, 38263, 12356, 12383, 12417, 12289]
     @ str_of_nat parts @ [20491, 12398, 12497, 12540, 12488, 12395, 20998, 12369, 12390,
     27573, 38542, 30340, 12395, 35201, 32004, 12375, 12414, 12377, 12290]"

text \<open>Line 119.\<close>

definition summarize_start_text :: "pystr" where
  "summarize_start_text =
     [27573, 38542, 30340, 35201, 32004, 12434, 38283, 22987, 46, 46, 46]"

text \<open>Line 121, the prompt of a map-phase request.\<close>

definition part_prompt :: "pystr \<Rightarrow> pystr" where
  "part_prompt chunk =
     [20197, 19979, 12399, 35542, 25991, 12398, 19968, 37096, 12391, 12377, 12290, 12371,
     12398, 37096, 20998, 12398, 35201, 28857, 12434, 31777, 28500, 12395, 12414, 12392,
     12417, 12390, 12367, 12384, 12373, 12356, 12290, 10, 10, 45, 45, 45, 10] @ chunk"

text \<open>Line 125.\<close>

definition part_done_text :: "nat \<Rightarrow> nat \<Rightarrow> pystr" where
  "part_done_text part_num parts =
     [12497, 12540, 12488, 32] @ str_of_nat part_num @ [47] @ str_of_nat parts @ [32, 12398,
     35201, 32004, 23436, 20102]"

text \<open>Line 127, the prompt of the reduce-phase request.\<close>

definition final_prompt :: "pystr \<Rightarrow> pystr \<Rightarrow> pystr" where
  "final_prompt custom_prompt combined_summary =
     [20197, 19979, 12399, 35542, 25991, 12398, 21508, 12497, 12540, 12488, 12398, 35201,
     32004, 12391, 12377, 12290, 12371, 12428, 12425, 12398, 24773, 22577, 12434, 20351,
     12387, 12390, 12289, 12518, 12540, 12470, 12540, 12398, 25351, 31034, 12395, 24467,
     12387, 12383, 26368, 32066, 30340, 12394, 35201, 32004, 12434, 20316, 25104, 12375,
     12390, 12367, 12384, 12373, 12356, 12290, 10, 10, 12518, 12540, 12470, 12540, 12398,
     25351, 31034, 58, 12300] @ custom_prompt @ [12301, 10, 10, 45, 45, 45, 10, 21508, 12497,
     12540, 12488, 12398, 35201, 32004, 58, 10] @ combined_summary"

text \<open>Line 130, the system message of the reduce-phase request.\<close>

definition final_system_prompt :: "pystr" where
  "final_system_prompt =
     [12354, 12394, 12383, 12399, 20778, 31168, 12394, 12522, 12469, 12540, 12481, 12450,
     12471, 12473, 12479, 12531, 12488, 12391, 12377, 12290, 28193, 12373, 12428, 12383,
     35201, 32004, 12398, 26029, 29255, 12434, 32113, 21512, 12375, 12289, 26368, 32066,
     30340, 12394, 22238, 31572, 12434, 29983, 25104, 12375, 12390, 12367, 12384, 12373,
     12356, 12290]"

text \<open>Line 135, the report of a failed summarization.\<close>

definition summarize_error_text :: "py_error \<Rightarrow> pystr" where
  "summarize_error_text e =
     [35201, 32004, 12456, 12521, 12540, 58, 32] @ error_text e"

section \<open>The backend and the observable effects\<close>

text \<open>
  \<open>str.strip()\<close> removes the leading and trailing white space; the white space of a
  Python \<open>str\<close> is the set of code points for which \<open>isspace\<close> holds.
\<close>

definition is_space :: "nat \<Rightarrow> bool" where
  "is_space c =
     ((9 \<le> c \<and> c \<le> 13) \<or> (28 \<le> c \<and> c \<le> 32) \<or> c = 133 \<or> c = 160 \<or> c = 5760
      \<or> (8192 \<le> c \<and> c \<le> 8202) \<or> c = 8232 \<or> c = 8233 \<or> c = 8239 \<or> c = 8287
      \<or> c = 12288)"

definition str_strip :: "pystr \<Rightarrow> pystr" where
  "str_strip s = rev (dropWhile is_space (rev (dropWhile is_space s)))"

text \<open>
  A request to \<open>client.chat.completions.create\<close>: the model, the messages and the
  temperature. The literal \<open>0.2\<close> is the float nearest to one fifth.
\<close>

record message =
  msg_role :: pystr
  msg_content :: pystr

record request =
  req_model :: pystr
  req_messages :: "message list"
  req_temperature :: rat

text \<open>
  What a run does to the outside is a trace of events, in the order of the run: the values
  sent to the progress bar, the bar being cleared, the texts shown by \<open>st.error\<close> and
  \<open>st.info\<close>, and the backend calls with what each gave, the text of the first choice or
  the exception raised.
\<close>

datatype event =
  Progress rat pystr
| ProgressEmpty
| ErrorShown pystr
| InfoShown pystr
| BackendCall request "py_error + pystr"

text \<open>
  The backend is not part of the repository. Its answer to a request may depend on
  everything that happened before: it is a function of the trace so far and the request.
\<close>

type_synonym backend = "event list \<Rightarrow> request \<Rightarrow> py_error + pystr"

definition translate_request :: "pystr \<Rightarrow> pystr \<Rightarrow> pystr \<Rightarrow> request" where
  "translate_request model target_language chunk =
     \<lparr>req_model = model,
      req_messages =
        [\<lparr>msg_role = ascii ''system'', msg_content = translate_system_prompt target_language\<rparr>,
         \<lparr>msg_role = ascii ''user'', msg_content = chunk\<rparr>],
      req_temperature = round_double (2 / 10)\<rparr>"

definition part_request :: "pystr \<Rightarrow> pystr \<Rightarrow> request" where
  "part_request model chunk =
     \<lparr>req_model = model,
      req_messages = [\<lparr>msg_role = ascii ''user'', msg_content = part_prompt chunk\<rparr>],
      req_temperature = round_double (2 / 10)\<rparr>"

definition final_request :: "pystr \<Rightarrow> pystr \<Rightarrow> pystr \<Rightarrow> request" where
  "final_request model custom_prompt combined_summary =
     \<lparr>req_model = model,
      req_messages =
        [\<lparr>msg_role = ascii ''system'', msg_content = final_system_prompt\<rparr>,
         \<lparr>msg_role = ascii ''user'', msg_content = final_prompt custom_prompt combined_summary\<rparr>],
      req_temperature = 1 / 2\<rparr>"

section \<open>Translation page by page\<close>

text \<open>
  The inner loop (lines 86 to 99): one call per chunk, in order. An exception of the call
  is caught, reported, and the sentinel takes the place of the reply.
\<close>

fun translate_chunks ::
  "backend \<Rightarrow> pystr \<Rightarrow> pystr \<Rightarrow> nat \<Rightarrow> pystr list \<Rightarrow> pystr list \<Rightarrow> event list
     \<Rightarrow> pystr list \<times> event list"
where
  "translate_chunks client model target_language page_num [] translated_page_parts tr =
     (translated_page_parts, tr)"
| "translate_chunks client model target_language page_num (chunk # sub_chunks)
       translated_page_parts tr =
     (let req = translate_request model target_language chunk
      in case client tr req of
           Inr reply \<Rightarrow>
             translate_chunks client model target_language page_num sub_chunks
               (translated_page_parts @ [reply]) (tr @ [BackendCall req (Inr reply)])
         | Inl e \<Rightarrow>
             translate_chunks client model target_language page_num sub_chunks
               (translated_page_parts @ [failed_part_text])
               (tr @ [BackendCall req (Inl e), ErrorShown (translate_error_text page_num e)]))"

text \<open>
  The loop over the pages (lines 72 to 103), at index \<open>i\<close> of \<open>page_count\<close> pages, with the list
  \<open>all_translated_pages\<close> built so far. The chunker is called with its default budget, 2000.
  An exception outside the inner \<open>try\<close> leaves the function.
\<close>

fun translate_pages ::
  "backend \<Rightarrow> token_counter \<Rightarrow> pystr \<Rightarrow> pystr \<Rightarrow> nat \<Rightarrow> nat \<Rightarrow> pystr list \<Rightarrow> pystr list
     \<Rightarrow> event list \<Rightarrow> ((py_error + pystr list) \<times> event list) option"
where
  "translate_pages client get_token_count model target_language page_count i []
       all_translated_pages tr =
     Some (Inr all_translated_pages, tr)"
| "translate_pages client get_token_count model target_language page_count i (page_text # pages)
       all_translated_pages tr =
     (case true_div (int i) (int page_count) of
        Inl e \<Rightarrow> Some (Inl e, tr)
      | Inr fraction \<Rightarrow>
          (let tr1 = tr @ [Progress fraction (progress_page_text (i + 1) page_count)]
           in if str_strip page_text = [] then
                translate_pages client get_token_count model target_language page_count (i + 1) pages
                  (all_translated_pages @ [empty_page_text (i + 1)]) tr1
              else
                (case split_text_into_chunks get_token_count page_text model 2000 of
                   None \<Rightarrow> None
                 | Some (Inl e) \<Rightarrow> Some (Inl e, tr1)
                 | Some (Inr sub_chunks) \<Rightarrow>
                     (case translate_chunks client model target_language (i + 1) sub_chunks []
                             tr1 of
                        (translated_page_parts, tr2) \<Rightarrow>
                          translate_pages client get_token_count model target_language page_count
                            (i + 1) pages
                            (all_translated_pages @ [str_join [10] translated_page_parts])
                            tr2))))"

definition translate_page_by_page ::
  "backend \<Rightarrow> token_counter \<Rightarrow> pystr list \<Rightarrow> pystr \<Rightarrow> pystr \<Rightarrow> event list
     \<Rightarrow> ((py_error + pystr) \<times> event list) option"
where
  "translate_page_by_page client get_token_count pages_text model target_language tr =
     (if pages_text = [] then Some (Inr [], tr)
      else
        (case translate_pages client get_token_count model target_language
                (length pages_text) 0 pages_text [] (tr @ [Progress 0 progress_start_text]) of
           None \<Rightarrow> None
         | Some (Inl e, tr') \<Rightarrow> Some (Inl e, tr')
         | Some (Inr all_translated_pages, tr') \<Rightarrow>
             Some (Inr (str_join page_separator
                          (map (\<lambda>(i, content). page_section (i + 1) content)
                             (enumerate 0 all_translated_pages))),
                   tr' @ [Progress 1 progress_done_text, ProgressEmpty])))"

section \<open>Summarization\<close>

text \<open>
  The map phase (lines 120 to 125): one call per chunk; an exception ends the loop and
  reaches the handler of \<open>summarize_text\<close>.
\<close>

fun summarize_parts ::
  "backend \<Rightarrow> pystr \<Rightarrow> nat \<Rightarrow> nat \<Rightarrow> pystr list \<Rightarrow> pystr list \<Rightarrow> event list
     \<Rightarrow> (py_error + pystr list) \<times> event list"
where
  "summarize_parts client model page_count i [] intermediate_summaries tr =
     (Inr intermediate_summaries, tr)"
| "summarize_parts client model page_count i (chunk # chunks) intermediate_summaries tr =
     (let req = part_request model chunk
      in case client tr req of
           Inl e \<Rightarrow> (Inl e, tr @ [BackendCall req (Inl e)])
         | Inr reply \<Rightarrow>
             (case true_div (int (i + 1)) (int page_count) of
                Inl e \<Rightarrow> (Inl e, tr @ [BackendCall req (Inr reply)])
              | Inr fraction \<Rightarrow>
                  summarize_parts client model page_count (i + 1) chunks
                    (intermediate_summaries @ [reply])
                    (tr @ [BackendCall req (Inr reply),
                           Progress fraction (part_done_text (i + 1) page_count)])))"

text \<open>The body of the \<open>try\<close> (lines 116 to 133); the chunker is called with budget 3000.\<close>

definition summarize_body ::
  "backend \<Rightarrow> token_counter \<Rightarrow> pystr \<Rightarrow> pystr \<Rightarrow> pystr \<Rightarrow> event list
     \<Rightarrow> ((py_error + pystr) \<times> event list) option"
where
  "summarize_body client get_token_count text model custom_prompt tr =
     (case split_text_into_chunks get_token_count text model 3000 of
        None \<Rightarrow> None
      | Some (Inl e) \<Rightarrow> Some (Inl e, tr)
      | Some (Inr chunks) \<Rightarrow>
          (case summarize_parts client model (length chunks) 0 chunks []
                  (tr @ [InfoShown (summarize_info_text (length chunks)),
                         Progress 0 summarize_start_text]) of
             (Inl e, tr1) \<Rightarrow> Some (Inl e, tr1)
           | (Inr intermediate_summaries, tr1) \<Rightarrow>
               (let req = final_request model custom_prompt
                            (str_join [10] intermediate_summaries)
                in case client tr1 req of
                     Inl e \<Rightarrow> Some (Inl e, tr1 @ [BackendCall req (Inl e)])
                   | Inr reply \<Rightarrow>
                       Some (Inr reply, tr1 @ [BackendCall req (Inr reply), ProgressEmpty]))))"

text \<open>
  \<open>summarize_text\<close>: the guard for an empty text, then the body under the handler, which
  reports the exception and returns the empty string.
\<close>

definition summarize_text ::
  "backend \<Rightarrow> token_counter \<Rightarrow> pystr \<Rightarrow> pystr \<Rightarrow> pystr \<Rightarrow> event list
     \<Rightarrow> (pystr \<times> event list) option"
where
  "summarize_text client get_token_count text model custom_prompt tr =
     (if text = [] then Some ([], tr)
      else
        (case summarize_body client get_token_count text model custom_prompt tr of
           None \<Rightarrow> None
         | Some (Inl e, tr1) \<Rightarrow> Some ([], tr1 @ [ErrorShown (summarize_error_text e)])
         | Some (Inr summary, tr1) \<Rightarrow> Some (summary, tr1)))"

text \<open>The backend calls of a trace, in order, and the calls that raised.\<close>

fun backend_calls :: "event list \<Rightarrow> (request \<times> (py_error + pystr)) list" where
  "backend_calls [] = []"
| "backend_calls (BackendCall req res # tr) = (req, res) # backend_calls tr"
| "backend_calls (ev # tr) = backend_calls tr"

fun progress_signals :: "event list \<Rightarrow> event list" where
  "progress_signals [] = []"
| "progress_signals (Progress v t # tr) = Progress v t # progress_signals tr"
| "progress_signals (ProgressEmpty # tr) = ProgressEmpty # progress_signals tr"
| "progress_signals (ev # tr) = progress_signals tr"

text \<open>A token counter for concrete runs: every code point is one token.\<close>

definition one_token_per_char :: token_counter where
  "one_token_per_char text model = length text"

section \<open>Properties of the chunker\<close>

lemma str_prefix_suffix: "str_prefix s k @ str_suffix s k = s"
  by (simp add: str_prefix_def str_suffix_def)

lemma str_split_newline_nonempty: "str_split_newline t \<noteq> []"
  by (induction t) (auto split: list.splits)

lemma concat_split_newline: "concat (map (\<lambda>l. l @ [10]) (str_split_newline t)) = t @ [10]"
  by (induction t) (auto split: list.splits)

lemma force_split_stop:
  "\<not> max_tokens < int (get_token_count sentence model) \<Longrightarrow>
   force_split get_token_count model max_tokens chunks sentence = Some (Inr (chunks, sentence))"
  by (subst force_split.simps) simp

lemma force_split_step:
  "max_tokens < int (get_token_count sentence model) \<Longrightarrow>
   cut_off_point (length sentence) max_tokens (get_token_count sentence model) = Inr c \<Longrightarrow>
   force_split get_token_count model max_tokens chunks sentence =
   force_split get_token_count model max_tokens
     (chunks @ [str_prefix sentence c]) (str_suffix sentence c)"
  by (subst force_split.simps) simp

lemma force_split_raise:
  "max_tokens < int (get_token_count sentence model) \<Longrightarrow>
   cut_off_point (length sentence) max_tokens (get_token_count sentence model) = Inl e \<Longrightarrow>
   force_split get_token_count model max_tokens chunks sentence = Some (Inl e)"
  by (subst force_split.simps) simp

text \<open>The loop only moves characters from the line to the chunks: partial correctness.\<close>

lemma force_split_concat:
  assumes "force_split get_token_count model max_tokens chunks sentence = Some r"
  shows "\<forall>chunks' sentence'. r = Inr (chunks', sentence') \<longrightarrow>
           concat chunks' @ sentence' = concat chunks @ sentence"
  using assms
proof (rule force_split.raw_induct
    [rotated, where P = "\<lambda>tc md m cs s r.
       \<forall>cs' s'. r = Inr (cs', s') \<longrightarrow> concat cs' @ s' = concat cs @ s"],
    goal_cases)
  case (1 f tc md m cs s r)
  show ?case
  proof (cases "m < int (tc s md)")
    case False
    with 1(2) show ?thesis by auto
  next
    case True
    show ?thesis
    proof (cases "cut_off_point (length s) m (tc s md)")
      case (Inl e)
      with True 1(2) show ?thesis by auto
    next
      case (Inr c)
      with True 1(2) have "f tc md m (cs @ [str_prefix s c]) (str_suffix s c) = Some r"
        by simp
      from 1(1)[OF this] show ?thesis by (simp add: str_prefix_suffix)
    qed
  qed
qed

lemma accumulate_concat:
  "accumulate tc md m ss chunks cur = Some (Inr (chunks', cur')) \<Longrightarrow>
   concat chunks' @ cur' = concat chunks @ cur @ concat (map (\<lambda>l. l @ [10]) ss)"
proof (induction ss arbitrary: chunks cur)
  case Nil
  then show ?case by simp
next
  case (Cons s ss)
  show ?case
  proof (cases "int (tc (cur @ s @ [10]) md) \<le> m")
    case True
    with Cons.prems
    have "accumulate tc md m ss chunks (cur @ s @ [10]) = Some (Inr (chunks', cur'))"
      by simp
    from Cons.IH[OF this] show ?thesis by simp
  next
    case False
    let ?cs = "if cur \<noteq> [] then chunks @ [cur] else chunks"
    from False Cons.prems obtain cs1 s1 where
      fs: "force_split tc md m ?cs s = Some (Inr (cs1, s1))" and
      acc: "accumulate tc md m ss cs1 (s1 @ [10]) = Some (Inr (chunks', cur'))"
      by (auto split: option.splits sum.splits)
    from force_split_concat[OF fs] have "concat cs1 @ s1 = concat ?cs @ s" by simp
    moreover have "concat ?cs = concat chunks @ cur" by simp
    moreover from Cons.IH[OF acc]
    have "concat chunks' @ cur' = (concat cs1 @ s1) @ [10] @ concat (map (\<lambda>l. l @ [10]) ss)"
      by simp
    ultimately show ?thesis by simp
  qed
qed

lemma accumulate_current_nonempty:
  "accumulate tc md m ss chunks cur = Some (Inr (chunks', cur')) \<Longrightarrow>
   cur \<noteq> [] \<or> ss \<noteq> [] \<Longrightarrow> cur' \<noteq> []"
proof (induction ss arbitrary: chunks cur)
  case Nil
  then show ?case by simp
next
  case (Cons s ss)
  show ?case
  proof (cases "int (tc (cur @ s @ [10]) md) \<le> m")
    case True
    with Cons.prems
    have "accumulate tc md m ss chunks (cur @ s @ [10]) = Some (Inr (chunks', cur'))"
      by simp
    from Cons.IH[OF this] show ?thesis by simp
  next
    case False
    from False Cons.prems obtain cs1 s1 where
      "accumulate tc md m ss cs1 (s1 @ [10]) = Some (Inr (chunks', cur'))"
      by (auto split: option.splits sum.splits)
    from Cons.IH[OF this] show ?thesis by simp
  qed
qed

lemma split_returns_last_chunk:
  assumes "split_text_into_chunks tc text md m = Some (Inr chunks)"
  shows "\<exists>cs cur. accumulate tc md m (str_split_newline text) [] [] = Some (Inr (cs, cur))
           \<and> cur \<noteq> [] \<and> chunks = cs @ [cur]"
proof -
  from assms obtain cs cur where
    acc: "accumulate tc md m (str_split_newline text) [] [] = Some (Inr (cs, cur))"
    and ch: "chunks = (if cur \<noteq> [] then cs @ [cur] else cs)"
    by (auto simp: split_text_into_chunks_def split: option.splits sum.splits)
  from accumulate_current_nonempty[OF acc] have "cur \<noteq> []"
    by (simp add: str_split_newline_nonempty)
  with acc ch show ?thesis by simp
qed

section \<open>The claims about the chunker\<close>

text \<open>
  Claim C2, as amended. On the empty string the chunker never returns the empty sequence:
  splitting the empty string on newlines gives one empty line, and the buffer built from it
  is the newline. Whenever the empty string counts no token and the budget is not negative,
  the result is the single chunk that holds one newline.
\<close>

theorem split_empty_text:
  "split_text_into_chunks tc [] md m \<noteq> Some (Inr []) \<and>
   (tc [] md = 0 \<and> 0 \<le> m \<longrightarrow> split_text_into_chunks tc [] md m = Some (Inr [[10]]))"
proof
  show "split_text_into_chunks tc [] md m \<noteq> Some (Inr [])"
    using split_returns_last_chunk[of tc "[]" md m "[]"] by auto
  show "tc [] md = 0 \<and> 0 \<le> m \<longrightarrow> split_text_into_chunks tc [] md m = Some (Inr [[10]])"
    by (auto simp: split_text_into_chunks_def force_split_stop)
qed

theorem split_empty_text_witness:
  "one_token_per_char [] (ascii ''gpt-4o'') = 0 \<and> (0::int) \<le> 2000 \<and>
   split_text_into_chunks one_token_per_char [] (ascii ''gpt-4o'') 2000 = Some (Inr [[10]])"
  using split_empty_text[of one_token_per_char "ascii ''gpt-4o''" 2000]
  by (simp add: one_token_per_char_def)

text \<open>
  Claim C2 as stated fails: with the budget of the translation path and one token per
  code point, the empty string yields one chunk, the newline.
\<close>

theorem split_empty_text_counterexample:
  "split_text_into_chunks one_token_per_char [] (ascii ''gpt-4o'') 2000 \<noteq> Some (Inr [])"
  by (simp add: split_text_into_chunks_def one_token_per_char_def)

end
